theory Spec2Isabelle
  imports Main "HOL-Library.Sublist"
begin

unbundle bit_operations_syntax

section \<open>JavaScript values at the boundary\<close>

text \<open>
  A property that holds a string, or is \<^verbatim>\<open>undefined\<close>/\<^verbatim>\<open>null\<close>, is a \<open>string option\<close>;
  \<open>None\<close> stands for both absent values (the code never tells them apart: it only tests
  truthiness, or compares with a non-empty string). The empty string is falsy in JavaScript,
  so \<open>!x\<close> is \<open>\<not> truthy x\<close>. A string is the list of the bytes of its UTF-8 encoding.
  Logging by \<^verbatim>\<open>console.log\<close> is not part of the model.
\<close>

definition truthy :: "string option \<Rightarrow> bool" where
  "truthy v = (case v of None \<Rightarrow> False | Some s \<Rightarrow> s \<noteq> [])"

datatype js_error = Error string | TypeError string | SyntaxError string

fun message :: "js_error \<Rightarrow> string" where
  "message (Error m) = m"
| "message (TypeError m) = m"
| "message (SyntaxError m) = m"

section \<open>Session, request and response\<close>

text \<open>The identity projection stored by the callback: the four properties read from the
  profile, each \<open>None\<close> when the profile lacks it.\<close>

record user_info =
  user_id :: "string option"
  username :: "string option"
  avatar :: "string option"
  discriminator :: "string option"

record session =
  oauthState :: "string option"
  accessToken :: "string option"
  user :: "user_info option"

text \<open>\<^verbatim>\<open>req.query\<close> of the callback: the two parameters the handler destructures, each a
  string or absent.\<close>

record query =
  code :: "string option"
  state :: "string option"

text \<open>
  A guild as the API sends it; \<open>permissions\<close> is the decimal string of the bit set, \<open>None\<close>
  when the property is absent or null. \<open>guild_view\<close> is the object the route returns for a
  guild: it has no \<open>permissions\<close>.
\<close>

record guild_view =
  guild_id :: string
  guild_name :: string
  guild_icon :: "string option"
  guild_owner :: bool

record guild = guild_view +
  permissions :: "string option"

text \<open>
  What a handler does with \<^verbatim>\<open>res\<close>: \<open>Redirect\<close> is \<^verbatim>\<open>res.redirect(url)\<close> (status 302),
  \<open>Send n body\<close> is \<^verbatim>\<open>res.status(n).send(body)\<close>, \<open>Json n body\<close> is
  \<^verbatim>\<open>res.status(n).json(body)\<close> (200 when no status is set). \<open>Success guilds debug\<close> is the
  body \<^verbatim>\<open>{success: true, guilds, debug}\<close>, \<open>Failure error details\<close> the body
  \<^verbatim>\<open>{success: false, error, details}\<close>. \<open>Unhandled\<close> is an exception that leaves the
  handler; in this model it happens only where \<^verbatim>\<open>req.session\<close> is undefined, which the session
  middleware of server.js, installed before the routes, excludes.
\<close>

datatype json_body =
    Success "guild_view list" "string option"
  | Failure string string

datatype response =
    Redirect string
  | Send nat string
  | Json nat json_body
  | Unhandled js_error

fun status_of :: "response \<Rightarrow> nat option" where
  "status_of (Redirect _) = Some 302"
| "status_of (Send n _) = Some n"
| "status_of (Json n _) = Some n"
| "status_of (Unhandled _) = None"

section \<open>The remote API\<close>

text \<open>
  One \<^verbatim>\<open>fetch\<close> and the reading of its body: the promise of \<^verbatim>\<open>fetch\<close> rejects, or the
  response is not ok (with its status text, and what \<^verbatim>\<open>text()\<close> gives), or it is ok (with
  what \<^verbatim>\<open>json()\<close> gives). \<open>Inl\<close> is a rejected promise.
\<close>

datatype 'a reply =
    FetchRejected js_error
  | NotOk string "js_error + string"
  | Ok "js_error + 'a"

text \<open>The parsed token response: \<^verbatim>\<open>null\<close>, or a value whose \<^verbatim>\<open>access_token\<close> property reads
  as given. The parsed profile likewise.\<close>

datatype token_json = TokenNull | TokenData "string option"

datatype user_json = UserNull | UserData user_info

record channel =
  channel_id :: string
  channel_type :: int

text \<open>The provider, as the answers it gives: to the token request (client id, client secret,
  code, redirect URI), to the profile and guild-list requests (the bearer token) and to the
  channel request (bot token, guild id). Within one request the answer to a channel request
  depends on the guild asked for only. \<open>remote_call\<close> names a request sent; the handlers
  return the requests they sent, in order.\<close>

record remote =
  token_endpoint :: "string \<Rightarrow> string \<Rightarrow> string \<Rightarrow> string \<Rightarrow> token_json reply"
  users_me :: "string option \<Rightarrow> user_json reply"
  users_me_guilds :: "string option \<Rightarrow> guild list reply"
  guild_channels :: "string \<Rightarrow> string \<Rightarrow> channel list reply"

datatype remote_call =
    TokenExchange string string string string
  | UsersMe "string option"
  | UsersMeGuilds "string option"
  | GuildChannels string string

section \<open>auth.js\<close>

subsection \<open>handleLogin\<close>

definition unreserved :: "char \<Rightarrow> bool" where
  "unreserved c =
     (let n = (of_char c :: nat) in
        (65 \<le> n \<and> n \<le> 90) \<or> (97 \<le> n \<and> n \<le> 122) \<or> (48 \<le> n \<and> n \<le> 57)
        \<or> c \<in> set ''-_.!~*'' \<or> n = 39 \<or> n = 40 \<or> n = 41)"

definition hex_digit :: "nat \<Rightarrow> char" where
  "hex_digit n = ''0123456789ABCDEF'' ! (n mod 16)"

definition encodeURIComponent :: "string \<Rightarrow> string" where
  "encodeURIComponent s =
     concat (map (\<lambda>c. if unreserved c then [c]
                      else [CHR ''%'', hex_digit ((of_char c :: nat) div 16),
                            hex_digit ((of_char c :: nat) mod 16)]) s)"

definition authUrl :: "string \<Rightarrow> string \<Rightarrow> string \<Rightarrow> string" where
  "authUrl clientId redirectUri st =
     ''https://discord.com/oauth2/authorize?client_id='' @ clientId
     @ ''&redirect_uri='' @ encodeURIComponent redirectUri
     @ ''&response_type=code&scope='' @ encodeURIComponent ''identify guilds''
     @ ''&state='' @ st"

text \<open>
  \<open>rnd\<close> is the string \<^verbatim>\<open>Math.random().toString(36)\<close>: \<open>''0''\<close> when the draw is 0,
  otherwise \<open>''0.''\<close> followed by at least one digit of base 36. \<open>save_err\<close> is the error
  \<^verbatim>\<open>req.session.save\<close> passes to its callback, if any.
\<close>

definition base36_digit :: "char \<Rightarrow> bool" where
  "base36_digit c =
     (let n = (of_char c :: nat) in (48 \<le> n \<and> n \<le> 57) \<or> (97 \<le> n \<and> n \<le> 122))"

definition random_rendering :: "string \<Rightarrow> bool" where
  "random_rendering r =
     (r = ''0'' \<or> (take 2 r = ''0.'' \<and> 2 < length r \<and> list_all base36_digit (drop 2 r)))"

definition handleLogin ::
  "string \<Rightarrow> js_error option \<Rightarrow> session option \<Rightarrow> string \<Rightarrow> string
     \<Rightarrow> response \<times> session option"
where
  "handleLogin rnd save_err sess clientId redirectUri =
     (case sess of
        None \<Rightarrow>
          (Unhandled (TypeError ''Cannot set properties of undefined (setting 'oauthState')''),
           None)
      | Some s \<Rightarrow>
          if truthy (accessToken s) then (Redirect ''/dashboard.html'', Some s)
          else
            let st = drop 2 rnd;
                s' = s\<lparr>oauthState := Some st\<rparr>
            in (case save_err of
                  Some _ \<Rightarrow> (Send 500 ''Failed to initialize login'', Some s')
                | None \<Rightarrow> (Redirect (authUrl clientId redirectUri st), Some s')))"

subsection \<open>handleCallback\<close>

text \<open>
  The body of the \<^verbatim>\<open>try\<close> block, entered with the code \<open>c\<close>. \<open>Inl e\<close> is an exception
  thrown inside the block: a rejected promise of \<^verbatim>\<open>fetch\<close>, \<^verbatim>\<open>text()\<close> or \<^verbatim>\<open>json()\<close>, or the
  \<^verbatim>\<open>TypeError\<close> of reading a property of \<^verbatim>\<open>null\<close>. The session returned is the session as
  the block left it.
\<close>

definition callback_try ::
  "remote \<Rightarrow> session \<Rightarrow> string \<Rightarrow> string \<Rightarrow> string \<Rightarrow> string
     \<Rightarrow> (js_error + response) \<times> session \<times> remote_call list"
where
  "callback_try env s c clientId clientSecret redirectUri =
     (let tx = TokenExchange clientId clientSecret c redirectUri in
      case token_endpoint env clientId clientSecret c redirectUri of
        FetchRejected e \<Rightarrow> (Inl e, s, [tx])
      | NotOk _ (Inl e) \<Rightarrow> (Inl e, s, [tx])
      | NotOk _ (Inr errorText) \<Rightarrow>
          (Inr (Send 400 ''Login failed. Please try again. (token error)''), s, [tx])
      | Ok (Inl e) \<Rightarrow> (Inl e, s, [tx])
      | Ok (Inr TokenNull) \<Rightarrow>
          (Inl (TypeError ''Cannot read properties of null (reading 'access_token')''),
           s, [tx])
      | Ok (Inr (TokenData access_token)) \<Rightarrow>
          (let s1 = s\<lparr>accessToken := access_token\<rparr>;
               um = UsersMe access_token
           in case users_me env access_token of
                FetchRejected e \<Rightarrow> (Inl e, s1, [tx, um])
              | NotOk _ (Inl e) \<Rightarrow> (Inl e, s1, [tx, um])
              | NotOk _ (Inr userError) \<Rightarrow>
                  (Inr (Send 400 ''Login failed. Please try again. (user fetch error)''),
                   s1, [tx, um])
              | Ok (Inl e) \<Rightarrow> (Inl e, s1, [tx, um])
              | Ok (Inr UserNull) \<Rightarrow>
                  (Inl (TypeError ''Cannot read properties of null (reading 'id')''),
                   s1, [tx, um])
              | Ok (Inr (UserData userData)) \<Rightarrow>
                  (Inr (Redirect ''/dashboard.html''),
                   s1\<lparr>user := Some userData, oauthState := None\<rparr>, [tx, um])))"

text \<open>The \<^verbatim>\<open>catch\<close> of the callback.\<close>

definition callback_catch :: "js_error + response \<Rightarrow> response" where
  "callback_catch r =
     (case r of
        Inl error \<Rightarrow> Send 400 ''Login failed. Please try again. (callback error)''
      | Inr response \<Rightarrow> response)"

definition handleCallback ::
  "remote \<Rightarrow> query \<Rightarrow> session option \<Rightarrow> string \<Rightarrow> string \<Rightarrow> string
     \<Rightarrow> response \<times> session option \<times> remote_call list"
where
  "handleCallback env q sess clientId clientSecret redirectUri =
     (case sess of
        None \<Rightarrow>
          (Unhandled (TypeError ''Cannot read properties of undefined (reading 'oauthState')''),
           None, [])
      | Some s \<Rightarrow>
          if \<not> truthy (state q) then
            (Send 400 ''Login failed. Please try again. (no state received)'', Some s, [])
          else if \<not> truthy (oauthState s) then
            (Send 400
               ''Login failed. Please try again. (session expired - try logging in again)'',
             Some s, [])
          else if state q \<noteq> oauthState s then
            (Send 400 ''Login failed. Please try again. (invalid state)'', Some s, [])
          else
            (case code q of
               None \<Rightarrow>
                 (Send 400 ''Login failed. Please try again. (missing code)'', Some s, [])
             | Some c \<Rightarrow>
                 if c = [] then
                   (Send 400 ''Login failed. Please try again. (missing code)'', Some s, [])
                 else
                   (case callback_try env s c clientId clientSecret redirectUri of
                      (r, s', calls) \<Rightarrow> (callback_catch r, Some s', calls))))"

section \<open>discord.js\<close>

text \<open>The wrappers throw where the request fails: \<open>Inl\<close> is the exception thrown.\<close>

definition getUserGuilds :: "remote \<Rightarrow> string option \<Rightarrow> js_error + guild list" where
  "getUserGuilds env tok =
     (case users_me_guilds env tok of
        FetchRejected e \<Rightarrow> Inl e
      | NotOk statusText _ \<Rightarrow> Inl (Error (''Failed to fetch user guilds: '' @ statusText))
      | Ok (Inl e) \<Rightarrow> Inl e
      | Ok (Inr gs) \<Rightarrow> Inr gs)"

definition getChannels :: "remote \<Rightarrow> string \<Rightarrow> string \<Rightarrow> js_error + channel list" where
  "getChannels env botToken guildId =
     (case guild_channels env botToken guildId of
        FetchRejected e \<Rightarrow> Inl e
      | NotOk statusText _ \<Rightarrow> Inl (Error (''Failed to fetch channels: '' @ statusText))
      | Ok (Inl e) \<Rightarrow> Inl e
      | Ok (Inr allChannels) \<Rightarrow> Inr (filter (\<lambda>c. channel_type c = 0) allChannels))"

section \<open>server.js: the /guilds route\<close>

subsection \<open>BigInt of a string\<close>

text \<open>
  \<^verbatim>\<open>BigInt(s)\<close> for a string: white space is trimmed; the empty string is 0; a prefix
  \<^verbatim>\<open>0x\<close>, \<^verbatim>\<open>0o\<close> or \<^verbatim>\<open>0b\<close> (either case) takes digits of that radix and no sign; otherwise
  an optional sign and decimal digits. Anything else is a \<^verbatim>\<open>SyntaxError\<close>.

  The white space trimmed is JavaScript's \<^verbatim>\<open>WhiteSpace\<close> and \<^verbatim>\<open>LineTerminator\<close>: U+0009 to
  U+000D, U+0020, U+00A0, U+1680, U+2000 to U+200A, U+2028, U+2029, U+202F, U+205F, U+3000
  and U+FEFF, each listed here by its UTF-8 bytes.
\<close>

definition white_space :: "string list" where
  "white_space =
     [[CHR 0x09], [CHR 0x0A], [CHR 0x0B], [CHR 0x0C], [CHR 0x0D], [CHR 0x20],
      [CHR 0xC2, CHR 0xA0], [CHR 0xE1, CHR 0x9A, CHR 0x80],
      [CHR 0xE2, CHR 0x80, CHR 0x80], [CHR 0xE2, CHR 0x80, CHR 0x81],
      [CHR 0xE2, CHR 0x80, CHR 0x82], [CHR 0xE2, CHR 0x80, CHR 0x83],
      [CHR 0xE2, CHR 0x80, CHR 0x84], [CHR 0xE2, CHR 0x80, CHR 0x85],
      [CHR 0xE2, CHR 0x80, CHR 0x86], [CHR 0xE2, CHR 0x80, CHR 0x87],
      [CHR 0xE2, CHR 0x80, CHR 0x88], [CHR 0xE2, CHR 0x80, CHR 0x89],
      [CHR 0xE2, CHR 0x80, CHR 0x8A], [CHR 0xE2, CHR 0x80, CHR 0xA8],
      [CHR 0xE2, CHR 0x80, CHR 0xA9], [CHR 0xE2, CHR 0x80, CHR 0xAF],
      [CHR 0xE2, CHR 0x81, CHR 0x9F], [CHR 0xE3, CHR 0x80, CHR 0x80],
      [CHR 0xEF, CHR 0xBB, CHR 0xBF]]"

text \<open>\<open>strip ws s\<close> removes from the front of \<open>s\<close> every leading occurrence of a sequence of
  \<open>ws\<close>; \<open>trim\<close> does so at both ends.\<close>

function strip :: "string list \<Rightarrow> string \<Rightarrow> string" where
  "strip ws s =
     (case find (\<lambda>w. w \<noteq> [] \<and> take (length w) s = w) ws of
        None \<Rightarrow> s
      | Some w \<Rightarrow> strip ws (drop (length w) s))"
  by pat_completeness auto
termination
proof (relation "measure (\<lambda>(ws, s). length s)")
  show "wf (measure (\<lambda>(ws, s). length s))" by simp
next
  fix ws :: "string list" and s w :: string
  assume "find (\<lambda>w. w \<noteq> [] \<and> take (length w) s = w) ws = Some w"
  then have w: "w \<noteq> []" "take (length w) s = w"
    by (auto simp: find_Some_iff)
  then have "s \<noteq> []" by auto
  with w show "((ws, drop (length w) s), (ws, s)) \<in> measure (\<lambda>(ws, s). length s)"
    by simp
qed

declare strip.simps [simp del]

definition trim :: "string \<Rightarrow> string" where
  "trim s = rev (strip (map rev white_space) (rev (strip white_space s)))"

definition digit_of :: "char \<Rightarrow> nat option" where
  "digit_of c =
     (let n = (of_char c :: nat) in
        if 48 \<le> n \<and> n \<le> 57 then Some (n - 48)
        else if 97 \<le> n \<and> n \<le> 122 then Some (n - 87)
        else if 65 \<le> n \<and> n \<le> 90 then Some (n - 55)
        else None)"

fun digits_value :: "nat \<Rightarrow> string \<Rightarrow> nat \<Rightarrow> nat option" where
  "digits_value radix [] acc = Some acc"
| "digits_value radix (c # cs) acc =
     (case digit_of c of
        None \<Rightarrow> None
      | Some d \<Rightarrow> if d < radix then digits_value radix cs (acc * radix + d) else None)"

definition parse_digits :: "nat \<Rightarrow> string \<Rightarrow> nat option" where
  "parse_digits radix s = (if s = [] then None else digits_value radix s 0)"

definition StringToBigInt :: "string \<Rightarrow> int option" where
  "StringToBigInt s =
     (let t = trim s in
        if t = [] then Some 0
        else if take 2 t \<in> {''0x'', ''0X''} then map_option int (parse_digits 16 (drop 2 t))
        else if take 2 t \<in> {''0o'', ''0O''} then map_option int (parse_digits 8 (drop 2 t))
        else if take 2 t \<in> {''0b'', ''0B''} then map_option int (parse_digits 2 (drop 2 t))
        else if take 1 t = ''+'' then map_option int (parse_digits 10 (drop 1 t))
        else if take 1 t = ''-'' then map_option (\<lambda>n. - int n) (parse_digits 10 (drop 1 t))
        else map_option int (parse_digits 10 t))"

definition BigInt :: "string \<Rightarrow> js_error + int" where
  "BigInt s =
     (case StringToBigInt s of
        None \<Rightarrow> Inl (SyntaxError (''Cannot convert '' @ s @ '' to a BigInt''))
      | Some n \<Rightarrow> Inr n)"

subsection \<open>The permission filter\<close>

definition MANAGE_GUILD_PERMISSION :: int where
  "MANAGE_GUILD_PERMISSION = 0x20"

text \<open>\<^verbatim>\<open>guild.permissions || "0"\<close>: the fallback is taken for every falsy value.\<close>

definition or_default :: "string option \<Rightarrow> string \<Rightarrow> string" where
  "or_default v d = (if truthy v then (case v of Some s \<Rightarrow> s | None \<Rightarrow> d) else d)"

text \<open>The callback of the filter; it throws where \<^verbatim>\<open>BigInt\<close> does.\<close>

definition hasPermission :: "guild \<Rightarrow> js_error + bool" where
  "hasPermission g =
     (case BigInt (or_default (permissions g) ''0'') of
        Inl e \<Rightarrow> Inl e
      | Inr p \<Rightarrow> Inr ((p AND MANAGE_GUILD_PERMISSION) \<noteq> 0))"

text \<open>\<^verbatim>\<open>userGuilds.filter(...)\<close>: the callback runs on the elements in order, and the first
  exception leaves the filter.\<close>

fun guildsWithPermission :: "guild list \<Rightarrow> js_error + guild list" where
  "guildsWithPermission [] = Inr []"
| "guildsWithPermission (g # gs) =
     (case hasPermission g of
        Inl e \<Rightarrow> Inl e
      | Inr b \<Rightarrow>
          (case guildsWithPermission gs of
             Inl e \<Rightarrow> Inl e
           | Inr rest \<Rightarrow> Inr (if b then g # rest else rest)))"

subsection \<open>The installation probe\<close>

definition project :: "guild \<Rightarrow> guild_view" where
  "project g =
     \<lparr>guild_id = guild_id g, guild_name = guild_name g, guild_icon = guild_icon g,
      guild_owner = guild_owner g\<rparr>"

text \<open>The \<^verbatim>\<open>for\<close> loop over \<^verbatim>\<open>guildsWithPermission\<close>: \<open>validGuilds\<close> is the array pushed to,
  \<open>calls\<close> the requests sent so far. The \<^verbatim>\<open>catch\<close> inside the loop drops the guild.\<close>

fun probe_loop ::
  "remote \<Rightarrow> string \<Rightarrow> guild list \<Rightarrow> guild_view list \<Rightarrow> remote_call list
     \<Rightarrow> guild_view list \<times> remote_call list"
where
  "probe_loop env botToken [] validGuilds calls = (validGuilds, calls)"
| "probe_loop env botToken (g # gs) validGuilds calls =
     (case getChannels env botToken (guild_id g) of
        Inl _ \<Rightarrow>
          probe_loop env botToken gs validGuilds (calls @ [GuildChannels botToken (guild_id g)])
      | Inr _ \<Rightarrow>
          probe_loop env botToken gs (validGuilds @ [project g])
            (calls @ [GuildChannels botToken (guild_id g)]))"

subsection \<open>The handler\<close>

definition fetch_guilds_failed :: "js_error \<Rightarrow> response" where
  "fetch_guilds_failed e = Json 500 (Failure ''Failed to fetch guilds'' (message e))"

definition guilds_handler ::
  "remote \<Rightarrow> string \<Rightarrow> session \<Rightarrow> response \<times> remote_call list"
where
  "guilds_handler env botToken s =
     (case getUserGuilds env (accessToken s) of
        Inl e \<Rightarrow> (fetch_guilds_failed e, [UsersMeGuilds (accessToken s)])
      | Inr userGuilds \<Rightarrow>
          if length userGuilds = 0 then
            (Json 200 (Success [] (Some ''User is not a member of any Discord servers'')),
             [UsersMeGuilds (accessToken s)])
          else
            (case guildsWithPermission userGuilds of
               Inl e \<Rightarrow> (fetch_guilds_failed e, [UsersMeGuilds (accessToken s)])
             | Inr withPermission \<Rightarrow>
                 if length withPermission = 0 then
                   (Json 200
                      (Success []
                         (Some ''You don't have 'Manage Server' permission in any of your servers'')),
                    [UsersMeGuilds (accessToken s)])
                 else
                   (case probe_loop env botToken withPermission []
                           [UsersMeGuilds (accessToken s)] of
                      (validGuilds, calls) \<Rightarrow>
                        if length validGuilds = 0 then
                          (Json 200
                             (Success []
                                (Some (''The bot is not installed in any of your servers. ''
                                       @ ''Please invite the bot to your server first.''))),
                           calls)
                        else (Json 200 (Success validGuilds None), calls))))"

text \<open>\<^verbatim>\<open>requireAuth\<close>, then the handler.\<close>

definition guilds_route ::
  "remote \<Rightarrow> string \<Rightarrow> session option \<Rightarrow> response \<times> remote_call list"
where
  "guilds_route env botToken sess =
     (case sess of
        None \<Rightarrow>
          (Unhandled (TypeError ''Cannot read properties of undefined (reading 'accessToken')''),
           [])
      | Some s \<Rightarrow>
          if \<not> truthy (accessToken s) then (Redirect ''/'', [])
          else guilds_handler env botToken s)"

section \<open>Notions used to state the properties\<close>

text \<open>The decimal numeral of a number, the form in which the API sends a permission set.\<close>

function decimal :: "nat \<Rightarrow> string" where
  "decimal n =
     (if n < 10 then [char_of (48 + n)]
      else decimal (n div 10) @ [char_of (48 + n mod 10)])"
  by pat_completeness auto
termination
  by (relation "measure id") auto

declare decimal.simps [simp del]

definition decimal_digit :: "char \<Rightarrow> bool" where
  "decimal_digit c = (48 \<le> (of_char c :: nat) \<and> (of_char c :: nat) \<le> 57)"

subsection \<open>Concrete inputs\<close>

text \<open>A provider that gives the same answer to every token, profile and guild-list request,
  and lists channels exactly for the guilds in \<open>installed\<close>.\<close>

definition fixed_remote ::
  "token_json reply \<Rightarrow> user_json reply \<Rightarrow> guild list reply \<Rightarrow> string list \<Rightarrow> remote"
where
  "fixed_remote t u gs installed =
     \<lparr>token_endpoint = (\<lambda>_ _ _ _. t), users_me = (\<lambda>_. u), users_me_guilds = (\<lambda>_. gs),
      guild_channels =
        (\<lambda>_ guildId. if guildId \<in> set installed then Ok (Inr [])
                      else NotOk ''Not Found'' (Inr ''Unknown Guild''))\<rparr>"

text \<open>A provider that cannot be reached.\<close>

definition offline_remote :: remote where
  "offline_remote =
     fixed_remote (FetchRejected (Error ''connect ECONNREFUSED''))
       (FetchRejected (Error ''connect ECONNREFUSED''))
       (FetchRejected (Error ''connect ECONNREFUSED'')) []"

definition example_guild :: "string \<Rightarrow> string option \<Rightarrow> guild" where
  "example_guild i p =
     \<lparr>guild_id = i, guild_name = i, guild_icon = None, guild_owner = False, permissions = p\<rparr>"

definition example_profile :: user_info where
  "example_profile =
     \<lparr>user_id = Some ''42'', username = Some ''mary'', avatar = None,
      discriminator = Some ''0''\<rparr>"

text \<open>Four guilds: the user manages Alpha, Delta and Gamma (bit 0x20 of the permissions),
  and the bot is installed in Alpha, Beta and Gamma.\<close>

definition guild_alpha :: guild where
  "guild_alpha =
     \<lparr>guild_id = ''1001'', guild_name = ''Alpha'', guild_icon = Some ''a1b2c3'',
      guild_owner = True, permissions = Some ''32''\<rparr>"

definition guild_beta :: guild where
  "guild_beta =
     \<lparr>guild_id = ''1002'', guild_name = ''Beta'', guild_icon = Some ''ffee00'',
      guild_owner = False, permissions = Some ''8''\<rparr>"

definition guild_gamma :: guild where
  "guild_gamma =
     \<lparr>guild_id = ''1003'', guild_name = ''Gamma'', guild_icon = None,
      guild_owner = True, permissions = Some ''4294967336''\<rparr>"

definition guild_delta :: guild where
  "guild_delta =
     \<lparr>guild_id = ''1004'', guild_name = ''Delta'', guild_icon = None,
      guild_owner = False, permissions = Some ''48''\<rparr>"

definition example_guilds :: "guild list" where
  "example_guilds = [guild_alpha, guild_delta, guild_beta, guild_gamma]"

definition example_remote :: remote where
  "example_remote =
     fixed_remote (FetchRejected (Error ''unused'')) (FetchRejected (Error ''unused''))
       (Ok (Inr example_guilds)) [''1001'', ''1002'', ''1003'']"

definition logged_in_session :: session where
  "logged_in_session =
     \<lparr>oauthState = None, accessToken = Some ''tok'', user = Some example_profile\<rparr>"

definition fresh_session :: session where
  "fresh_session = \<lparr>oauthState = None, accessToken = None, user = None\<rparr>"

definition issued_session :: session where
  "issued_session = \<lparr>oauthState = Some ''k3x'', accessToken = None, user = None\<rparr>"

definition matching_query :: query where
  "matching_query = \<lparr>code = Some ''c0de'', state = Some ''k3x''\<rparr>"

section \<open>Basic facts\<close>

lemma truthy_simps [simp]:
  "truthy None = False" "truthy (Some s) = (s \<noteq> [])"
  by (simp_all add: truthy_def)

subsection \<open>The callback\<close>

lemma callback_try_cases:
  "callback_try env s c cid sec uri = (r, s', calls) \<Longrightarrow>
     (r = Inr (Redirect ''/dashboard.html'') \<and>
        (\<exists>tok u. token_endpoint env cid sec c uri = Ok (Inr (TokenData tok)) \<and>
             users_me env tok = Ok (Inr (UserData u)) \<and>
             s' = s\<lparr>accessToken := tok, user := Some u, oauthState := None\<rparr>))
   \<or> (r \<noteq> Inr (Redirect ''/dashboard.html'') \<and> s' = s)
   \<or> (r \<noteq> Inr (Redirect ''/dashboard.html'') \<and>
        (\<exists>tok. token_endpoint env cid sec c uri = Ok (Inr (TokenData tok)) \<and>
        s' = s\<lparr>accessToken := tok\<rparr>))"
  by (auto simp: callback_try_def Let_def split: reply.splits sum.splits token_json.splits user_json.splits)

lemma callback_catch_dashboard:
  "callback_catch r = Redirect ''/dashboard.html'' \<longleftrightarrow> r = Inr (Redirect ''/dashboard.html'')"
  by (auto simp: callback_catch_def split: sum.splits)

lemma handleCallback_rejected:
  "\<not> (truthy (state q) \<and> truthy (oauthState s) \<and> state q = oauthState s \<and> truthy (code q)) \<Longrightarrow>
   \<exists>m. handleCallback env q (Some s) cid sec uri = (Send 400 m, Some s, [])"
  by (auto simp: handleCallback_def split: option.splits)

lemma handleCallback_validated:
  "truthy (state q) \<Longrightarrow> state q = oauthState s \<Longrightarrow> code q = Some c \<Longrightarrow> c \<noteq> [] \<Longrightarrow>
   handleCallback env q (Some s) cid sec uri =
     (case callback_try env s c cid sec uri of (r, s', calls) \<Rightarrow> (callback_catch r, Some s', calls))"
  by (auto simp: handleCallback_def)

lemma callback_try_status:
  "callback_try env s c cid sec uri = (r, s', calls) \<Longrightarrow>
   status_of (callback_catch r) = Some 302 \<or> status_of (callback_catch r) = Some 400"
  by (auto simp: callback_try_def callback_catch_def Let_def
      split: reply.splits sum.splits token_json.splits user_json.splits)

subsection \<open>The login\<close>

lemma authUrl_not_dashboard: "authUrl cid uri st \<noteq> ''/dashboard.html''"
  by (simp add: authUrl_def)

lemma random_rendering_drop:
  assumes "random_rendering r1" "random_rendering r2"
  shows "drop 2 r1 = drop 2 r2 \<longleftrightarrow> r1 = r2"
proof
  assume d: "drop 2 r1 = drop 2 r2"
  have "take 2 r1 = take 2 r2"
  proof (cases "r1 = ''0''")
    case True
    with d assms(2) show ?thesis by (auto simp: random_rendering_def)
  next
    case False
    with d assms show ?thesis by (auto simp: random_rendering_def)
  qed
  with d show "r1 = r2" by (metis append_take_drop_id)
qed simp

subsection \<open>The permission filter and the probe loop\<close>

lemma guildsWithPermission_Inr:
  "guildsWithPermission gs = Inr gp \<Longrightarrow> gp = filter (\<lambda>g. hasPermission g = Inr True) gs"
  by (induction gs arbitrary: gp) (auto split: sum.splits if_splits)

lemma guildsWithPermission_total:
  "\<forall>g \<in> set gs. \<exists>b. hasPermission g = Inr b \<Longrightarrow>
   guildsWithPermission gs = Inr (filter (\<lambda>g. hasPermission g = Inr True) gs)"
  by (induction gs) (auto split: sum.splits)

lemma probe_loop_eq:
  "probe_loop env botToken gs acc calls =
     (acc @ map project
        (filter (\<lambda>g. \<exists>chs. guild_channels env botToken (guild_id g) = Ok (Inr chs)) gs),
      calls @ map (\<lambda>g. GuildChannels botToken (guild_id g)) gs)"
  by (induction gs arbitrary: acc calls)
     (auto simp: getChannels_def split: sum.splits reply.splits)

lemma project_eq:
  "project =
     (\<lambda>g. \<lparr>guild_id = guild_id g, guild_name = guild_name g, guild_icon = guild_icon g,
           guild_owner = guild_owner g\<rparr>)"
  by (rule ext) (simp add: project_def)

lemma getUserGuilds_Ok:
  "users_me_guilds env tok = Ok (Inr gs) \<Longrightarrow> getUserGuilds env tok = Inr gs"
  by (simp add: getUserGuilds_def)

subsection \<open>Decimal numerals are read back by BigInt\<close>

lemma of_char_digit: "d < 10 \<Longrightarrow> (of_char (char_of (48 + d :: nat)) :: nat) = 48 + d"
  by simp

lemma digit_of_char_of: "d < 10 \<Longrightarrow> digit_of (char_of (48 + d :: nat)) = Some d"
  by (simp add: digit_of_def)

lemma decimal_digit_char_of: "d < 10 \<Longrightarrow> decimal_digit (char_of (48 + d :: nat))"
  by (simp add: decimal_digit_def)

lemma digits_value_append:
  "digits_value r (xs @ ys) acc =
     (case digits_value r xs acc of None \<Rightarrow> None | Some a \<Rightarrow> digits_value r ys a)"
  by (induction xs arbitrary: acc) (auto split: option.splits)

lemma digits_value_decimal: "digits_value 10 (decimal n) 0 = Some n"
proof (induction n rule: decimal.induct)
  case (1 n)
  show ?case
  proof (cases "n < 10")
    case True
    then show ?thesis
      by (subst decimal.simps) (simp add: digit_of_char_of)
  next
    case False
    have m: "n mod 10 < 10" by simp
    from False 1 have "digits_value 10 (decimal (n div 10)) 0 = Some (n div 10)" by simp
    with False show ?thesis
      by (subst decimal.simps) (simp add: digits_value_append digit_of_char_of [OF m])
  qed
qed

lemma decimal_not_Nil: "decimal n \<noteq> []"
  by (subst decimal.simps) simp

lemma decimal_digits: "list_all decimal_digit (decimal n)"
proof (induction n rule: decimal.induct)
  case (1 n)
  have m: "n mod 10 < 10" by simp
  show ?case
  proof (cases "n < 10")
    case True
    then show ?thesis by (subst decimal.simps) (simp add: decimal_digit_char_of)
  next
    case False
    with 1 show ?thesis
      by (subst decimal.simps) (simp add: decimal_digit_char_of [OF m])
  qed
qed

lemma strip_Nil: "strip ws [] = []"
proof -
  have "find (\<lambda>w. w \<noteq> [] \<and> take (length w) [] = w) ws = None"
    by (auto simp: find_None_iff)
  then show ?thesis by (subst strip.simps) simp
qed

lemma strip_no_lead:
  assumes "\<And>w. w \<in> set ws \<Longrightarrow> hd w \<noteq> c"
  shows "strip ws (c # cs) = c # cs"
proof -
  have "\<not> (w \<noteq> [] \<and> take (length w) (c # cs) = w)" if "w \<in> set ws" for w
  proof (cases w)
    case Nil
    then show ?thesis by simp
  next
    case (Cons x xs)
    with assms [OF that] have "x \<noteq> c" by simp
    with Cons show ?thesis by simp
  qed
  then have "find (\<lambda>w. w \<noteq> [] \<and> take (length w) (c # cs) = w) ws = None"
    by (simp add: find_None_iff)
  then show ?thesis by (subst strip.simps) simp
qed

lemma digit_not_white_space:
  "decimal_digit c \<Longrightarrow> w \<in> set white_space \<Longrightarrow> hd w \<noteq> c"
  by (auto simp: white_space_def decimal_digit_def)

lemma digit_not_white_space_rev:
  "decimal_digit c \<Longrightarrow> w \<in> set (map rev white_space) \<Longrightarrow> hd w \<noteq> c"
  by (auto simp: white_space_def decimal_digit_def)

lemma strip_digits:
  assumes "list_all decimal_digit s"
  shows "strip white_space s = s" "strip (map rev white_space) (rev s) = rev s"
proof -
  show "strip white_space s = s"
  proof (cases s)
    case Nil
    then show ?thesis by (simp add: strip_Nil)
  next
    case (Cons c cs)
    with assms have "decimal_digit c" by simp
    then show ?thesis unfolding Cons
      by (intro strip_no_lead) (rule digit_not_white_space)
  qed
  show "strip (map rev white_space) (rev s) = rev s"
  proof (cases "rev s")
    case Nil
    then show ?thesis by (simp add: strip_Nil)
  next
    case (Cons c cs)
    then have "c \<in> set s" by (metis list.set_intros(1) set_rev)
    with assms have "decimal_digit c" by (simp add: list_all_iff)
    then show ?thesis unfolding Cons
      by (intro strip_no_lead) (rule digit_not_white_space_rev)
  qed
qed

lemma trim_digits:
  assumes "list_all decimal_digit s"
  shows "trim s = s"
  by (simp add: trim_def strip_digits [OF assms])

lemma StringToBigInt_digits:
  assumes "list_all decimal_digit s" "s \<noteq> []"
  shows "StringToBigInt s = map_option int (parse_digits 10 s)"
proof -
  obtain c cs where s: "s = c # cs" using assms(2) by (cases s) auto
  with assms(1) have c: "decimal_digit c" by simp
  have h: "c \<noteq> CHR ''+''" "c \<noteq> CHR ''-''"
    using c by (auto simp: decimal_digit_def)
  have t: "take 1 s \<noteq> ''+''" "take 1 s \<noteq> ''-''"
    using h s by simp_all
  have q: "cs = [] \<or> (\<exists>d ds. cs = d # ds \<and> d \<notin> {CHR ''x'', CHR ''X'', CHR ''o'', CHR ''O'', CHR ''b'', CHR ''B''})"
  proof (cases cs)
    case Nil
    then show ?thesis by simp
  next
    case (Cons d ds)
    with s assms(1) have "decimal_digit d" by simp
    then have "d \<notin> {CHR ''x'', CHR ''X'', CHR ''o'', CHR ''O'', CHR ''b'', CHR ''B''}"
      by (auto simp: decimal_digit_def)
    with Cons show ?thesis by simp
  qed
  have p: "take 2 s \<notin> {''0x'', ''0X''}" "take 2 s \<notin> {''0o'', ''0O''}"
    "take 2 s \<notin> {''0b'', ''0B''}"
    using q s by auto
  show ?thesis
    unfolding StringToBigInt_def Let_def trim_digits [OF assms(1)]
    using p t assms(2) by (simp only: if_False)
qed

lemma BigInt_decimal: "BigInt (decimal n) = Inr (int n)"
  by (simp add: BigInt_def StringToBigInt_digits [OF decimal_digits decimal_not_Nil]
      parse_digits_def decimal_not_Nil digits_value_decimal)

lemma and_32_odd: "((k::int) AND 32 \<noteq> 0) = odd (k div 32)"
proof -
  have "bit k 5 \<longleftrightarrow> k AND push_bit 5 1 \<noteq> 0"
    by (rule bit_iff_and_push_bit_not_eq_0)
  then show ?thesis by (simp add: bit_iff_odd)
qed

text \<open>A string of decimal digits as permissions: the guild passes when bit 5 of its value
  is set.\<close>

lemma hasPermission_digits:
  assumes "permissions g = Some ds" "list_all decimal_digit ds" "ds \<noteq> []"
    and "digits_value 10 ds 0 = Some n"
  shows "hasPermission g = Inr (odd (n div 32))"
proof -
  have "BigInt ds = Inr (int n)"
    by (simp add: BigInt_def StringToBigInt_digits [OF assms(2,3)] parse_digits_def assms(3,4))
  moreover have "int n div 32 = int (n div 32)" by simp
  ultimately show ?thesis
    using assms(1,3)
    by (simp add: hasPermission_def or_default_def MANAGE_GUILD_PERMISSION_def and_32_odd)
qed

lemma hasPermission_absent:
  "permissions g = None \<or> permissions g = Some [] \<Longrightarrow> hasPermission g = Inr False"
proof -
  assume a: "permissions g = None \<or> permissions g = Some []"
  have d: "list_all decimal_digit ''0''" by (simp add: decimal_digit_def)
  have "BigInt ''0'' = Inr 0"
    by (simp add: BigInt_def StringToBigInt_digits [OF d] parse_digits_def digit_of_def)
  with a show ?thesis
    by (auto simp: hasPermission_def or_default_def MANAGE_GUILD_PERMISSION_def)
qed

subsection \<open>The example guilds\<close>

lemma example_hasPermission:
  "hasPermission (example_guild i (Some ''32'')) = Inr True"
  "hasPermission (example_guild i (Some ''0'')) = Inr False"
  "hasPermission (example_guild i (Some ''40'')) = Inr True"
proof -
  show "hasPermission (example_guild i (Some ''32'')) = Inr True"
    using hasPermission_digits [of "example_guild i (Some ''32'')" "''32''" 32]
    by (simp add: example_guild_def decimal_digit_def digit_of_def)
  show "hasPermission (example_guild i (Some ''0'')) = Inr False"
    using hasPermission_digits [of "example_guild i (Some ''0'')" "''0''" 0]
    by (simp add: example_guild_def decimal_digit_def digit_of_def)
  show "hasPermission (example_guild i (Some ''40'')) = Inr True"
    using hasPermission_digits [of "example_guild i (Some ''40'')" "''40''" 40]
    by (simp add: example_guild_def decimal_digit_def digit_of_def)
qed

lemma example_guilds_hasPermission:
  "hasPermission guild_alpha = Inr True"
  "hasPermission guild_beta = Inr False"
  "hasPermission guild_gamma = Inr True"
  "hasPermission guild_delta = Inr True"
proof -
  show "hasPermission guild_alpha = Inr True"
    using hasPermission_digits [of guild_alpha "''32''" 32]
    by (simp add: guild_alpha_def decimal_digit_def digit_of_def)
  show "hasPermission guild_beta = Inr False"
    using hasPermission_digits [of guild_beta "''8''" 8]
    by (simp add: guild_beta_def decimal_digit_def digit_of_def)
  show "hasPermission guild_gamma = Inr True"
    using hasPermission_digits [of guild_gamma "''4294967336''" 4294967336]
    by (simp add: guild_gamma_def decimal_digit_def digit_of_def)
  show "hasPermission guild_delta = Inr True"
    using hasPermission_digits [of guild_delta "''48''" 48]
    by (simp add: guild_delta_def decimal_digit_def digit_of_def)
qed

lemma example_users_me_guilds:
  "users_me_guilds example_remote (accessToken logged_in_session) = Ok (Inr example_guilds)"
  by (simp add: example_remote_def fixed_remote_def)

lemma example_guild_channels:
  "guild_channels example_remote b (guild_id guild_alpha) = Ok (Inr [])"
  "guild_channels example_remote b (guild_id guild_beta) = Ok (Inr [])"
  "guild_channels example_remote b (guild_id guild_gamma) = Ok (Inr [])"
  "guild_channels example_remote b (guild_id guild_delta) =
     NotOk ''Not Found'' (Inr ''Unknown Guild'')"
  by (simp_all add: example_remote_def fixed_remote_def guild_alpha_def guild_beta_def
      guild_gamma_def guild_delta_def)

lemma example_guilds_route:
  "guilds_route example_remote ''bot-token'' (Some logged_in_session) =
     (Json 200
        (Success
           [\<lparr>guild_id = ''1001'', guild_name = ''Alpha'', guild_icon = Some ''a1b2c3'',
             guild_owner = True\<rparr>,
            \<lparr>guild_id = ''1003'', guild_name = ''Gamma'', guild_icon = None,
             guild_owner = True\<rparr>]
           None),
      [UsersMeGuilds (Some ''tok''), GuildChannels ''bot-token'' ''1001'',
       GuildChannels ''bot-token'' ''1004'', GuildChannels ''bot-token'' ''1003''])"
proof -
  have g: "guildsWithPermission example_guilds = Inr [guild_alpha, guild_delta, guild_gamma]"
    by (simp add: example_guilds_def example_guilds_hasPermission)
  have t: "truthy (accessToken logged_in_session)"
    by (simp add: logged_in_session_def)
  have n: "example_guilds \<noteq> []" by (simp add: example_guilds_def)
  have u: "getUserGuilds example_remote (accessToken logged_in_session) = Inr example_guilds"
    by (rule getUserGuilds_Ok [OF example_users_me_guilds])
  show ?thesis
    using t n
    by (simp add: guilds_route_def guilds_handler_def u g probe_loop_eq
        example_guild_channels project_def)
       (simp add: logged_in_session_def guild_alpha_def guild_gamma_def guild_delta_def)
qed

section \<open>The state token of the login round trip\<close>

text \<open>
  C1 (as amended). A callback on a present session clears the stored \<open>oauthState\<close> only when it
  succeeds, that is when it answers with the redirect to the dashboard. On every other path
  (a validation rejection, a failed token exchange, a failed identity fetch, a caught
  exception) the session's \<open>oauthState\<close> is what it was before the callback.
\<close>

theorem callback_oauthState:
  "handleCallback env q (Some s) cid sec uri = (r, sess', calls) \<Longrightarrow>
   \<exists>s'. sess' = Some s' \<and>
        oauthState s' = (if r = Redirect ''/dashboard.html'' then None else oauthState s)"
proof -
  assume h: "handleCallback env q (Some s) cid sec uri = (r, sess', calls)"
  show ?thesis
  proof (cases "truthy (state q) \<and> truthy (oauthState s) \<and> state q = oauthState s \<and> truthy (code q)")
    case False
    with h show ?thesis
      by (auto simp: handleCallback_def split: if_splits option.splits)
  next
    case True
    then obtain c where c: "code q = Some c" "c \<noteq> []" by (cases "code q") auto
    obtain r0 s0 calls0 where t: "callback_try env s c cid sec uri = (r0, s0, calls0)"
      by (cases "callback_try env s c cid sec uri") auto
    from h True c t have r: "r = callback_catch r0" "sess' = Some s0"
      by (auto simp: handleCallback_def)
    from callback_try_cases [OF t] r show ?thesis
      by (auto simp: callback_catch_dashboard)
  qed
qed

text \<open>The success path, on which the state is cleared.\<close>

theorem callback_oauthState_witness:
  "handleCallback
     (fixed_remote (Ok (Inr (TokenData (Some ''tok'')))) (Ok (Inr (UserData example_profile)))
        (Ok (Inr [])) [])
     matching_query (Some issued_session) ''id'' ''secret'' ''uri'' =
     (Redirect ''/dashboard.html'',
      Some \<lparr>oauthState = None, accessToken = Some ''tok'', user = Some example_profile\<rparr>,
      [TokenExchange ''id'' ''secret'' ''c0de'' ''uri'', UsersMe (Some ''tok'')]) \<and>
   (\<exists>s'. Some \<lparr>oauthState = None, accessToken = Some ''tok'', user = Some example_profile\<rparr>
           = Some s' \<and> oauthState s' = None)"
proof -
  have h: "handleCallback
     (fixed_remote (Ok (Inr (TokenData (Some ''tok'')))) (Ok (Inr (UserData example_profile)))
        (Ok (Inr [])) [])
     matching_query (Some issued_session) ''id'' ''secret'' ''uri'' =
     (Redirect ''/dashboard.html'',
      Some \<lparr>oauthState = None, accessToken = Some ''tok'', user = Some example_profile\<rparr>,
      [TokenExchange ''id'' ''secret'' ''c0de'' ''uri'', UsersMe (Some ''tok'')])"
    by (simp add: handleCallback_def callback_try_def callback_catch_def fixed_remote_def
        matching_query_def issued_session_def)
  from callback_oauthState [OF h] h show ?thesis by simp
qed

text \<open>
  C1 as stated fails: the token exchange is refused, the callback answers 400 and the stored
  state is still in the session; the same request sent again passes the state check again
  and reaches the token endpoint a second time.
\<close>

theorem callback_state_not_cleared_on_token_error:
  "handleCallback
     (fixed_remote (NotOk ''Bad Request'' (Inr ''invalid_grant''))
        (FetchRejected (Error ''unused'')) (Ok (Inr [])) [])
     matching_query (Some issued_session) ''id'' ''secret'' ''uri'' =
     (Send 400 ''Login failed. Please try again. (token error)'',
      Some \<lparr>oauthState = Some ''k3x'', accessToken = None, user = None\<rparr>,
      [TokenExchange ''id'' ''secret'' ''c0de'' ''uri'']) \<and>
   handleCallback
     (fixed_remote (NotOk ''Bad Request'' (Inr ''invalid_grant''))
        (FetchRejected (Error ''unused'')) (Ok (Inr [])) [])
     matching_query (Some \<lparr>oauthState = Some ''k3x'', accessToken = None, user = None\<rparr>)
     ''id'' ''secret'' ''uri'' =
     (Send 400 ''Login failed. Please try again. (token error)'',
      Some \<lparr>oauthState = Some ''k3x'', accessToken = None, user = None\<rparr>,
      [TokenExchange ''id'' ''secret'' ''c0de'' ''uri''])"
  by (simp add: handleCallback_def callback_try_def callback_catch_def fixed_remote_def
      matching_query_def issued_session_def)

section \<open>Token and identity in the session\<close>

text \<open>
  C2 (as amended). A callback on a present session leaves the session, and so \<open>accessToken\<close>
  and \<open>user\<close>, as it was when it rejects at validation or when the token exchange fails
  (the request is rejected, the response is not ok, or its body is unreadable or null).
  When the token exchange succeeds the callback stores the \<open>access_token\<close> property of the
  response as \<open>accessToken\<close>, whatever it reads (absent included), before it fetches the
  identity. If the identity fetch then fails (rejected, not ok, unreadable or null) the
  callback does not redirect to the dashboard, the new \<open>accessToken\<close> stays stored and
  nothing else in the session changes, so \<open>user\<close> is as it was. If the identity fetch
  succeeds the callback also writes \<open>user\<close>, clears \<open>oauthState\<close> and redirects to the
  dashboard. So \<open>user\<close> is written only in an execution that stored \<open>accessToken\<close>, while
  \<open>accessToken\<close> can be stored without \<open>user\<close>.
\<close>

theorem callback_token_and_user:
  "(\<not> (truthy (state q) \<and> truthy (oauthState s) \<and> state q = oauthState s \<and> truthy (code q)) \<longrightarrow>
      fst (snd (handleCallback env q (Some s) cid sec uri)) = Some s \<and>
      fst (handleCallback env q (Some s) cid sec uri) \<noteq> Redirect ''/dashboard.html'') \<and>
   (\<forall>c. truthy (state q) \<and> state q = oauthState s \<and> code q = Some c \<and> c \<noteq> [] \<longrightarrow>
      (case token_endpoint env cid sec c uri of
         Ok (Inr (TokenData tok)) \<Rightarrow>
           (case users_me env tok of
              Ok (Inr (UserData u)) \<Rightarrow>
                handleCallback env q (Some s) cid sec uri =
                  (Redirect ''/dashboard.html'',
                   Some (s\<lparr>accessToken := tok, user := Some u, oauthState := None\<rparr>),
                   [TokenExchange cid sec c uri, UsersMe tok])
            | _ \<Rightarrow>
                fst (snd (handleCallback env q (Some s) cid sec uri)) =
                  Some (s\<lparr>accessToken := tok\<rparr>) \<and>
                fst (handleCallback env q (Some s) cid sec uri) \<noteq> Redirect ''/dashboard.html'')
       | _ \<Rightarrow>
           fst (snd (handleCallback env q (Some s) cid sec uri)) = Some s \<and>
           fst (handleCallback env q (Some s) cid sec uri) \<noteq> Redirect ''/dashboard.html''))"
proof -
  have a: "\<not> (truthy (state q) \<and> truthy (oauthState s) \<and> state q = oauthState s \<and> truthy (code q)) \<longrightarrow>
      fst (snd (handleCallback env q (Some s) cid sec uri)) = Some s \<and>
      fst (handleCallback env q (Some s) cid sec uri) \<noteq> Redirect ''/dashboard.html''"
  proof
    assume n: "\<not> (truthy (state q) \<and> truthy (oauthState s) \<and> state q = oauthState s \<and> truthy (code q))"
    from handleCallback_rejected [OF n, of env cid sec uri] show
      "fst (snd (handleCallback env q (Some s) cid sec uri)) = Some s \<and>
       fst (handleCallback env q (Some s) cid sec uri) \<noteq> Redirect ''/dashboard.html''"
      by auto
  qed
  have b: "case token_endpoint env cid sec c uri of
         Ok (Inr (TokenData tok)) \<Rightarrow>
           (case users_me env tok of
              Ok (Inr (UserData u)) \<Rightarrow>
                handleCallback env q (Some s) cid sec uri =
                  (Redirect ''/dashboard.html'',
                   Some (s\<lparr>accessToken := tok, user := Some u, oauthState := None\<rparr>),
                   [TokenExchange cid sec c uri, UsersMe tok])
            | _ \<Rightarrow>
                fst (snd (handleCallback env q (Some s) cid sec uri)) =
                  Some (s\<lparr>accessToken := tok\<rparr>) \<and>
                fst (handleCallback env q (Some s) cid sec uri) \<noteq> Redirect ''/dashboard.html'')
       | _ \<Rightarrow>
           fst (snd (handleCallback env q (Some s) cid sec uri)) = Some s \<and>
           fst (handleCallback env q (Some s) cid sec uri) \<noteq> Redirect ''/dashboard.html''"
    if v: "truthy (state q) \<and> state q = oauthState s \<and> code q = Some c \<and> c \<noteq> []" for c
  proof -
    from v have h: "handleCallback env q (Some s) cid sec uri =
        (case callback_try env s c cid sec uri of
           (r, s', calls) \<Rightarrow> (callback_catch r, Some s', calls))"
      using handleCallback_validated [of q s c env cid sec uri] by blast
    show ?thesis
      unfolding h
      by (simp add: callback_try_def callback_catch_def Let_def
          split: reply.splits sum.splits token_json.splits user_json.splits)
  qed
  from a b show ?thesis by blast
qed

text \<open>One request for each case: rejected at validation, token exchange refused, identity
  fetch refused after a successful exchange, and success.\<close>

theorem callback_token_and_user_witness:
  "fst (snd (handleCallback offline_remote \<lparr>code = Some ''c0de'', state = Some ''k3y''\<rparr>
     (Some issued_session) ''id'' ''secret'' ''uri'')) = Some issued_session \<and>
   fst (snd (handleCallback
     (fixed_remote (NotOk ''Bad Request'' (Inr ''invalid_grant''))
        (Ok (Inr (UserData example_profile))) (Ok (Inr [])) [])
     matching_query (Some issued_session) ''id'' ''secret'' ''uri'')) = Some issued_session \<and>
   fst (snd (handleCallback
     (fixed_remote (Ok (Inr (TokenData (Some ''tok''))))
        (NotOk ''Unauthorized'' (Inr ''401: Unauthorized'')) (Ok (Inr [])) [])
     matching_query (Some issued_session) ''id'' ''secret'' ''uri'')) =
     Some \<lparr>oauthState = Some ''k3x'', accessToken = Some ''tok'', user = None\<rparr> \<and>
   handleCallback
     (fixed_remote (Ok (Inr (TokenData (Some ''tok'')))) (Ok (Inr (UserData example_profile)))
        (Ok (Inr [])) [])
     matching_query (Some issued_session) ''id'' ''secret'' ''uri'' =
     (Redirect ''/dashboard.html'',
      Some \<lparr>oauthState = None, accessToken = Some ''tok'', user = Some example_profile\<rparr>,
      [TokenExchange ''id'' ''secret'' ''c0de'' ''uri'', UsersMe (Some ''tok'')])"
proof -
  have v: "truthy (state matching_query) \<and> state matching_query = oauthState issued_session \<and>
      code matching_query = Some ''c0de'' \<and> ''c0de'' \<noteq> []"
    by (simp add: matching_query_def issued_session_def)
  have n: "\<not> (truthy (state \<lparr>code = Some ''c0de'', state = Some ''k3y''\<rparr>) \<and>
      truthy (oauthState issued_session) \<and>
      state \<lparr>code = Some ''c0de'', state = Some ''k3y''\<rparr> = oauthState issued_session \<and>
      truthy (code \<lparr>code = Some ''c0de'', state = Some ''k3y''\<rparr>))"
    by (simp add: issued_session_def)
  have 1: "fst (snd (handleCallback offline_remote \<lparr>code = Some ''c0de'', state = Some ''k3y''\<rparr>
     (Some issued_session) ''id'' ''secret'' ''uri'')) = Some issued_session"
    using callback_token_and_user [where env = offline_remote and cid = "''id''"
        and sec = "''secret''" and uri = "''uri''", THEN conjunct1, rule_format, OF n]
    by simp
  have 2: "fst (snd (handleCallback
     (fixed_remote (NotOk ''Bad Request'' (Inr ''invalid_grant''))
        (Ok (Inr (UserData example_profile))) (Ok (Inr [])) [])
     matching_query (Some issued_session) ''id'' ''secret'' ''uri'')) = Some issued_session"
    using callback_token_and_user [where cid = "''id''" and sec = "''secret''"
        and uri = "''uri''"
        and env = "fixed_remote (NotOk ''Bad Request'' (Inr ''invalid_grant''))
           (Ok (Inr (UserData example_profile))) (Ok (Inr [])) []",
        THEN conjunct2, rule_format, OF v]
    by (simp add: fixed_remote_def)
  have 3: "fst (snd (handleCallback
     (fixed_remote (Ok (Inr (TokenData (Some ''tok''))))
        (NotOk ''Unauthorized'' (Inr ''401: Unauthorized'')) (Ok (Inr [])) [])
     matching_query (Some issued_session) ''id'' ''secret'' ''uri'')) =
     Some \<lparr>oauthState = Some ''k3x'', accessToken = Some ''tok'', user = None\<rparr>"
    using callback_token_and_user [where cid = "''id''" and sec = "''secret''"
        and uri = "''uri''"
        and env = "fixed_remote (Ok (Inr (TokenData (Some ''tok''))))
           (NotOk ''Unauthorized'' (Inr ''401: Unauthorized'')) (Ok (Inr [])) []",
        THEN conjunct2, rule_format, OF v]
    by (simp add: fixed_remote_def issued_session_def)
  have 4: "handleCallback
     (fixed_remote (Ok (Inr (TokenData (Some ''tok'')))) (Ok (Inr (UserData example_profile)))
        (Ok (Inr [])) [])
     matching_query (Some issued_session) ''id'' ''secret'' ''uri'' =
     (Redirect ''/dashboard.html'',
      Some \<lparr>oauthState = None, accessToken = Some ''tok'', user = Some example_profile\<rparr>,
      [TokenExchange ''id'' ''secret'' ''c0de'' ''uri'', UsersMe (Some ''tok'')])"
    using callback_token_and_user [where cid = "''id''" and sec = "''secret''"
        and uri = "''uri''"
        and env = "fixed_remote (Ok (Inr (TokenData (Some ''tok''))))
           (Ok (Inr (UserData example_profile))) (Ok (Inr [])) []",
        THEN conjunct2, rule_format, OF v]
    by (simp add: fixed_remote_def issued_session_def)
  from 1 2 3 4 show ?thesis by blast
qed

text \<open>
  C2 as stated fails: a fresh session logs in, the callback's token exchange succeeds and
  the identity fetch is refused. The callback answers 400 and the session holds the access
  token with no user.
\<close>

theorem callback_token_without_user:
  "(case handleLogin ''0.k3x'' None (Some fresh_session) ''id'' ''uri'' of
      (_, sess) \<Rightarrow>
        handleCallback
          (fixed_remote (Ok (Inr (TokenData (Some ''tok''))))
             (NotOk ''Unauthorized'' (Inr ''401: Unauthorized'')) (Ok (Inr [])) [])
          matching_query sess ''id'' ''secret'' ''uri'') =
     (Send 400 ''Login failed. Please try again. (user fetch error)'',
      Some \<lparr>oauthState = Some ''k3x'', accessToken = Some ''tok'', user = None\<rparr>,
      [TokenExchange ''id'' ''secret'' ''c0de'' ''uri'', UsersMe (Some ''tok'')])"
  by (simp add: handleLogin_def handleCallback_def callback_try_def callback_catch_def
      fixed_remote_def matching_query_def fresh_session_def Let_def)

section \<open>Validation of the callback\<close>

text \<open>
  C3. On a present session the callback validates in a fixed order: a missing state is
  rejected first (``no state received''), then a session without a stored \<open>oauthState\<close>
  (``session expired''), then a received state that is not equal to the stored one
  (``invalid state''), then a missing code (``missing code''). Every rejection answers 400,
  the four messages are pairwise different, the session is left as it was, and whenever the
  received state differs from the stored one no remote call at all is issued, in particular
  no token exchange.
\<close>

theorem callback_validation_order:
  "(\<not> truthy (state q) \<longrightarrow>
      handleCallback env q (Some s) cid sec uri =
        (Send 400 ''Login failed. Please try again. (no state received)'', Some s, [])) \<and>
   (truthy (state q) \<and> \<not> truthy (oauthState s) \<longrightarrow>
      handleCallback env q (Some s) cid sec uri =
        (Send 400 ''Login failed. Please try again. (session expired - try logging in again)'',
         Some s, [])) \<and>
   (truthy (state q) \<and> truthy (oauthState s) \<and> state q \<noteq> oauthState s \<longrightarrow>
      handleCallback env q (Some s) cid sec uri =
        (Send 400 ''Login failed. Please try again. (invalid state)'', Some s, [])) \<and>
   (truthy (state q) \<and> state q = oauthState s \<and> \<not> truthy (code q) \<longrightarrow>
      handleCallback env q (Some s) cid sec uri =
        (Send 400 ''Login failed. Please try again. (missing code)'', Some s, [])) \<and>
   (state q \<noteq> oauthState s \<longrightarrow>
      status_of (fst (handleCallback env q (Some s) cid sec uri)) = Some 400 \<and>
      snd (snd (handleCallback env q (Some s) cid sec uri)) = []) \<and>
   distinct [''Login failed. Please try again. (no state received)'',
             ''Login failed. Please try again. (session expired - try logging in again)'',
             ''Login failed. Please try again. (invalid state)'',
             ''Login failed. Please try again. (missing code)'']"
  by (auto simp: handleCallback_def split: option.splits)

text \<open>The four rejections, each at a request that reaches it; the request rejected for an
  invalid state differs from the stored state in its last character.\<close>

theorem callback_validation_order_witness:
  "handleCallback offline_remote \<lparr>code = Some ''c0de'', state = None\<rparr> (Some issued_session)
     ''id'' ''secret'' ''uri'' =
     (Send 400 ''Login failed. Please try again. (no state received)'',
      Some issued_session, []) \<and>
   handleCallback offline_remote matching_query (Some fresh_session) ''id'' ''secret'' ''uri'' =
     (Send 400 ''Login failed. Please try again. (session expired - try logging in again)'',
      Some fresh_session, []) \<and>
   handleCallback offline_remote \<lparr>code = Some ''c0de'', state = Some ''k3y''\<rparr> (Some issued_session)
     ''id'' ''secret'' ''uri'' =
     (Send 400 ''Login failed. Please try again. (invalid state)'', Some issued_session, []) \<and>
   handleCallback offline_remote \<lparr>code = None, state = Some ''k3x''\<rparr> (Some issued_session)
     ''id'' ''secret'' ''uri'' =
     (Send 400 ''Login failed. Please try again. (missing code)'', Some issued_session, []) \<and>
   snd (snd (handleCallback offline_remote \<lparr>code = Some ''c0de'', state = Some ''k3y''\<rparr>
     (Some issued_session) ''id'' ''secret'' ''uri'')) = []"
  using
    callback_validation_order [of "\<lparr>code = Some ''c0de'', state = None\<rparr>" offline_remote
      issued_session "''id''" "''secret''" "''uri''"]
    callback_validation_order [of matching_query offline_remote fresh_session
      "''id''" "''secret''" "''uri''"]
    callback_validation_order [of "\<lparr>code = Some ''c0de'', state = Some ''k3y''\<rparr>" offline_remote
      issued_session "''id''" "''secret''" "''uri''"]
    callback_validation_order [of "\<lparr>code = None, state = Some ''k3x''\<rparr>" offline_remote
      issued_session "''id''" "''secret''" "''uri''"]
  by (simp add: matching_query_def issued_session_def fresh_session_def)

section \<open>Exceptions in the callback\<close>

text \<open>
  C7. On a present session the callback always answers, with status 302 or 400 and never
  500; and whenever the body of its \<^verbatim>\<open>try\<close> block throws, the answer is the generic 400
  ``callback error''.
\<close>

theorem callback_never_500:
  "status_of (fst (handleCallback env q (Some s) cid sec uri)) \<in> {Some 302, Some 400} \<and>
   status_of (fst (handleCallback env q (Some s) cid sec uri)) \<noteq> Some 500 \<and>
   (\<forall>c e s' calls.
      truthy (state q) \<and> state q = oauthState s \<and> code q = Some c \<and> c \<noteq> [] \<and>
      callback_try env s c cid sec uri = (Inl e, s', calls) \<longrightarrow>
      fst (handleCallback env q (Some s) cid sec uri) =
        Send 400 ''Login failed. Please try again. (callback error)'')"
proof -
  have a: "status_of (fst (handleCallback env q (Some s) cid sec uri)) \<in> {Some 302, Some 400}"
  proof (cases "truthy (state q) \<and> truthy (oauthState s) \<and> state q = oauthState s \<and> truthy (code q)")
    case False
    from handleCallback_rejected [OF False, of env cid sec uri] show ?thesis
      by auto
  next
    case True
    then obtain c where c: "code q = Some c" "c \<noteq> []" by (cases "code q") auto
    obtain r0 s0 calls0 where t: "callback_try env s c cid sec uri = (r0, s0, calls0)"
      by (cases "callback_try env s c cid sec uri") auto
    from callback_try_status [OF t] True c t show ?thesis
      by (auto simp: handleCallback_validated)
  qed
  then have b: "status_of (fst (handleCallback env q (Some s) cid sec uri)) \<noteq> Some 500"
    by auto
  have c: "\<forall>c e s' calls.
      truthy (state q) \<and> state q = oauthState s \<and> code q = Some c \<and> c \<noteq> [] \<and>
      callback_try env s c cid sec uri = (Inl e, s', calls) \<longrightarrow>
      fst (handleCallback env q (Some s) cid sec uri) =
        Send 400 ''Login failed. Please try again. (callback error)''"
    by (auto simp: handleCallback_validated callback_catch_def)
  from a b c show ?thesis by blast
qed

text \<open>The connection to the token endpoint fails.\<close>

theorem callback_never_500_witness:
  "callback_try
     offline_remote
     issued_session ''c0de'' ''id'' ''secret'' ''uri'' =
     (Inl (Error ''connect ECONNREFUSED''), issued_session,
      [TokenExchange ''id'' ''secret'' ''c0de'' ''uri'']) \<and>
   fst (handleCallback
     offline_remote
     matching_query (Some issued_session) ''id'' ''secret'' ''uri'') =
     Send 400 ''Login failed. Please try again. (callback error)''"
proof -
  have h: "callback_try
     offline_remote
     issued_session ''c0de'' ''id'' ''secret'' ''uri'' =
     (Inl (Error ''connect ECONNREFUSED''), issued_session,
      [TokenExchange ''id'' ''secret'' ''c0de'' ''uri''])"
    by (simp add: callback_try_def offline_remote_def fixed_remote_def)
  have q: "truthy (state matching_query)" "state matching_query = oauthState issued_session"
    "code matching_query = Some ''c0de''" "''c0de'' \<noteq> []"
    by (simp_all add: matching_query_def issued_session_def)
  from callback_never_500 [of
      offline_remote matching_query issued_session "''id''" "''secret''" "''uri''"] h q
  show ?thesis by blast
qed

section \<open>Initiating a login\<close>

text \<open>
  C6. On a session that carries a truthy \<open>accessToken\<close>, \<^verbatim>\<open>handleLogin\<close> redirects to the
  dashboard and leaves the session as it is (no \<open>oauthState\<close> is stored); the redirect is not
  one to the provider's authorization URL, whatever its parameters.
\<close>

theorem login_already_authenticated:
  "truthy (accessToken s) \<Longrightarrow>
   handleLogin rnd save_err (Some s) cid uri = (Redirect ''/dashboard.html'', Some s) \<and>
   fst (handleLogin rnd save_err (Some s) cid uri) \<noteq> Redirect (authUrl cid' uri' st)"
  using authUrl_not_dashboard [of cid' uri' st] by (auto simp: handleLogin_def)

theorem login_already_authenticated_witness:
  "truthy (accessToken \<lparr>oauthState = None, accessToken = Some ''tok'', user = None\<rparr>) \<and>
   handleLogin ''0.k3x'' None
     (Some \<lparr>oauthState = None, accessToken = Some ''tok'', user = None\<rparr>) ''id'' ''uri'' =
     (Redirect ''/dashboard.html'',
      Some \<lparr>oauthState = None, accessToken = Some ''tok'', user = None\<rparr>)"
proof -
  have h: "truthy (accessToken \<lparr>oauthState = None, accessToken = Some ''tok'', user = None\<rparr>)"
    by simp
  from login_already_authenticated [OF h, of "''0.k3x''" None "''id''" "''uri''"] h
  show ?thesis by blast
qed

text \<open>
  C8 (as amended). On a present session without a truthy \<open>accessToken\<close>, \<^verbatim>\<open>handleLogin\<close> stores
  as \<open>oauthState\<close> the string \<^verbatim>\<open>Math.random().toString(36)\<close> without its first two characters
  and changes nothing else in the session; it answers 500 when the session cannot be saved
  and otherwise redirects to the authorization URL that carries this state. Whenever the
  rendering is \<open>''0.''\<close> followed by at least one digit of base 36, the state stored is
  non-empty. Two invocations in sequence store different states exactly when the renderings
  of their two draws differ; nothing in the code makes them differ.
\<close>

theorem login_state_issued:
  assumes "\<not> truthy (accessToken s)"
    and "random_rendering r1" "r1 \<noteq> ''0''" "random_rendering r2" "r2 \<noteq> ''0''"
  shows "handleLogin r1 e1 (Some s) cid uri =
           ((case e1 of Some _ \<Rightarrow> Send 500 ''Failed to initialize login''
             | None \<Rightarrow> Redirect (authUrl cid uri (drop 2 r1))),
            Some (s\<lparr>oauthState := Some (drop 2 r1)\<rparr>)) \<and>
         drop 2 r1 \<noteq> [] \<and>
         handleLogin r2 e2 (Some (s\<lparr>oauthState := Some (drop 2 r1)\<rparr>)) cid uri =
           ((case e2 of Some _ \<Rightarrow> Send 500 ''Failed to initialize login''
             | None \<Rightarrow> Redirect (authUrl cid uri (drop 2 r2))),
            Some (s\<lparr>oauthState := Some (drop 2 r2)\<rparr>)) \<and>
         drop 2 r2 \<noteq> [] \<and>
         (drop 2 r1 \<noteq> drop 2 r2 \<longleftrightarrow> r1 \<noteq> r2)"
proof -
  have a: "handleLogin r1 e1 (Some s) cid uri =
           ((case e1 of Some _ \<Rightarrow> Send 500 ''Failed to initialize login''
             | None \<Rightarrow> Redirect (authUrl cid uri (drop 2 r1))),
            Some (s\<lparr>oauthState := Some (drop 2 r1)\<rparr>))"
    using assms(1) by (simp add: handleLogin_def Let_def split: option.splits)
  have n1: "\<not> truthy (accessToken (s\<lparr>oauthState := Some (drop 2 r1)\<rparr>))"
    using assms(1) by simp
  have b: "handleLogin r2 e2 (Some (s\<lparr>oauthState := Some (drop 2 r1)\<rparr>)) cid uri =
           ((case e2 of Some _ \<Rightarrow> Send 500 ''Failed to initialize login''
             | None \<Rightarrow> Redirect (authUrl cid uri (drop 2 r2))),
            Some (s\<lparr>oauthState := Some (drop 2 r2)\<rparr>))"
    using n1 by (simp add: handleLogin_def Let_def split: option.splits)
  have c: "drop 2 r1 \<noteq> []" "drop 2 r2 \<noteq> []"
    using assms(2-5) by (auto simp: random_rendering_def)
  have d: "drop 2 r1 \<noteq> drop 2 r2 \<longleftrightarrow> r1 \<noteq> r2"
    using random_rendering_drop [OF assms(2,4)] by simp
  from a b c d show ?thesis by blast
qed

theorem login_state_issued_witness:
  "\<not> truthy (accessToken fresh_session) \<and> random_rendering ''0.k3x'' \<and>
   random_rendering ''0.9zq'' \<and>
   handleLogin ''0.k3x'' None (Some fresh_session) ''id'' ''uri'' =
     (Redirect (authUrl ''id'' ''uri'' ''k3x''),
      Some \<lparr>oauthState = Some ''k3x'', accessToken = None, user = None\<rparr>) \<and>
   handleLogin ''0.9zq'' None
     (Some \<lparr>oauthState = Some ''k3x'', accessToken = None, user = None\<rparr>) ''id'' ''uri'' =
     (Redirect (authUrl ''id'' ''uri'' ''9zq''),
      Some \<lparr>oauthState = Some ''9zq'', accessToken = None, user = None\<rparr>)"
proof -
  have h: "\<not> truthy (accessToken fresh_session)" "random_rendering ''0.k3x''"
    "''0.k3x'' \<noteq> ''0''" "random_rendering ''0.9zq''" "''0.9zq'' \<noteq> ''0''"
    by (simp_all add: fresh_session_def random_rendering_def base36_digit_def)
  from login_state_issued [OF h, of None "''id''" "''uri''" None]
  have "handleLogin ''0.k3x'' None (Some fresh_session) ''id'' ''uri'' =
     (Redirect (authUrl ''id'' ''uri'' ''k3x''),
      Some \<lparr>oauthState = Some ''k3x'', accessToken = None, user = None\<rparr>) \<and>
   handleLogin ''0.9zq'' None
     (Some \<lparr>oauthState = Some ''k3x'', accessToken = None, user = None\<rparr>) ''id'' ''uri'' =
     (Redirect (authUrl ''id'' ''uri'' ''9zq''),
      Some \<lparr>oauthState = Some ''9zq'', accessToken = None, user = None\<rparr>)"
    by (simp add: fresh_session_def)
  with h show ?thesis by blast
qed

text \<open>
  C8 as stated fails on both counts. Two invocations in sequence whose draws render alike
  store the same state: the second call reuses the value of the first. And a draw of 0
  renders as \<open>''0''\<close>, for which the state stored is the empty string.
\<close>

theorem login_state_reused_or_empty:
  "random_rendering ''0.k3x'' \<and>
   handleLogin ''0.k3x'' None (Some fresh_session) ''id'' ''uri'' =
     (Redirect (authUrl ''id'' ''uri'' ''k3x''),
      Some \<lparr>oauthState = Some ''k3x'', accessToken = None, user = None\<rparr>) \<and>
   handleLogin ''0.k3x'' None
     (Some \<lparr>oauthState = Some ''k3x'', accessToken = None, user = None\<rparr>) ''id'' ''uri'' =
     (Redirect (authUrl ''id'' ''uri'' ''k3x''),
      Some \<lparr>oauthState = Some ''k3x'', accessToken = None, user = None\<rparr>) \<and>
   random_rendering ''0'' \<and>
   handleLogin ''0'' None (Some fresh_session) ''id'' ''uri'' =
     (Redirect (authUrl ''id'' ''uri'' []),
      Some \<lparr>oauthState = Some [], accessToken = None, user = None\<rparr>)"
  by (simp add: random_rendering_def base36_digit_def handleLogin_def fresh_session_def Let_def)

section \<open>The guilds shown on the dashboard\<close>

text \<open>
  C4. For a request to \<^verbatim>\<open>/guilds\<close> with a truthy \<open>accessToken\<close>, to which the provider answers
  with the guild list \<open>gs\<close>, every permissions string being one \<^verbatim>\<open>BigInt\<close> reads: an empty
  list gives an empty result with the text for no guilds; when no guild has the
  manage-server bit the result is empty with the text for the missing permission and no
  probe is sent; otherwise a channel request is sent for every guild with the bit, in
  order, whatever the earlier ones gave, and the result is the guilds for which the provider
  answered ok with a readable body, each as the object of its \<open>id\<close>, \<open>name\<close>, \<open>icon\<close> and
  \<open>owner\<close> alone, or the empty list with the text for the bot that is not installed when
  there is none. The three texts (the reason codes \<open>NO_GUILDS\<close>, \<open>NO_MANAGE_PERMISSION\<close> and
  \<open>BOT_NOT_INSTALLED\<close> of the specification) are pairwise different.
\<close>

theorem guilds_reconciliation:
  assumes "truthy (accessToken s)"
    and "users_me_guilds env (accessToken s) = Ok (Inr gs)"
    and "\<forall>g \<in> set gs. \<exists>b. hasPermission g = Inr b"
  shows "guilds_route env botToken (Some s) =
     (let permitted = filter (\<lambda>g. hasPermission g = Inr True) gs;
          surviving =
            filter (\<lambda>g. \<exists>chs. guild_channels env botToken (guild_id g) = Ok (Inr chs))
              permitted;
          probes = map (\<lambda>g. GuildChannels botToken (guild_id g)) permitted
      in if gs = [] then
           (Json 200 (Success [] (Some ''User is not a member of any Discord servers'')),
            [UsersMeGuilds (accessToken s)])
         else if permitted = [] then
           (Json 200 (Success []
              (Some ''You don't have 'Manage Server' permission in any of your servers'')),
            [UsersMeGuilds (accessToken s)])
         else if surviving = [] then
           (Json 200 (Success []
              (Some ''The bot is not installed in any of your servers. Please invite the bot to your server first.'')),
            UsersMeGuilds (accessToken s) # probes)
         else
           (Json 200
              (Success
                 (map (\<lambda>g. \<lparr>guild_id = guild_id g, guild_name = guild_name g,
                              guild_icon = guild_icon g, guild_owner = guild_owner g\<rparr>)
                    surviving)
                 None),
            UsersMeGuilds (accessToken s) # probes)) \<and>
   distinct
     [''User is not a member of any Discord servers'',
      ''You don't have 'Manage Server' permission in any of your servers'',
      ''The bot is not installed in any of your servers. Please invite the bot to your server first.'']"
proof -
  have u: "getUserGuilds env (accessToken s) = Inr gs"
    by (rule getUserGuilds_Ok [OF assms(2)])
  have "guilds_route env botToken (Some s) =
     (let permitted = filter (\<lambda>g. hasPermission g = Inr True) gs;
          surviving =
            filter (\<lambda>g. \<exists>chs. guild_channels env botToken (guild_id g) = Ok (Inr chs))
              permitted;
          probes = map (\<lambda>g. GuildChannels botToken (guild_id g)) permitted
      in if gs = [] then
           (Json 200 (Success [] (Some ''User is not a member of any Discord servers'')),
            [UsersMeGuilds (accessToken s)])
         else if permitted = [] then
           (Json 200 (Success []
              (Some ''You don't have 'Manage Server' permission in any of your servers'')),
            [UsersMeGuilds (accessToken s)])
         else if surviving = [] then
           (Json 200 (Success []
              (Some ''The bot is not installed in any of your servers. Please invite the bot to your server first.'')),
            UsersMeGuilds (accessToken s) # probes)
         else
           (Json 200
              (Success
                 (map (\<lambda>g. \<lparr>guild_id = guild_id g, guild_name = guild_name g,
                              guild_icon = guild_icon g, guild_owner = guild_owner g\<rparr>)
                    surviving)
                 None),
            UsersMeGuilds (accessToken s) # probes))"
    using assms(1) u guildsWithPermission_total [OF assms(3)]
    by (simp add: guilds_route_def guilds_handler_def probe_loop_eq Let_def project_eq)
  moreover have "distinct
     [''User is not a member of any Discord servers'',
      ''You don't have 'Manage Server' permission in any of your servers'',
      ''The bot is not installed in any of your servers. Please invite the bot to your server first.'']"
    by simp
  ultimately show ?thesis by blast
qed

text \<open>
  The user is in Alpha, Delta, Beta and Gamma, in this order, and manages all but Beta;
  the provider lists channels for Alpha, Beta and Gamma and answers 404 for Delta. Alpha,
  Delta and Gamma are probed, in this order, and the result is Alpha and Gamma.
\<close>

theorem guilds_reconciliation_witness:
  "truthy (accessToken logged_in_session) \<and>
   users_me_guilds example_remote (accessToken logged_in_session) =
     Ok (Inr [guild_alpha, guild_delta, guild_beta, guild_gamma]) \<and>
   guild_channels example_remote ''bot-token'' ''1004'' =
     NotOk ''Not Found'' (Inr ''Unknown Guild'') \<and>
   guilds_route example_remote ''bot-token'' (Some logged_in_session) =
     (Json 200
        (Success
           [\<lparr>guild_id = ''1001'', guild_name = ''Alpha'', guild_icon = Some ''a1b2c3'',
             guild_owner = True\<rparr>,
            \<lparr>guild_id = ''1003'', guild_name = ''Gamma'', guild_icon = None,
             guild_owner = True\<rparr>]
           None),
      [UsersMeGuilds (Some ''tok''), GuildChannels ''bot-token'' ''1001'',
       GuildChannels ''bot-token'' ''1004'', GuildChannels ''bot-token'' ''1003''])"
proof -
  have t: "truthy (accessToken logged_in_session)"
    by (simp add: logged_in_session_def)
  have p: "\<forall>g \<in> set example_guilds. \<exists>b. hasPermission g = Inr b"
    by (auto simp: example_guilds_def example_guilds_hasPermission)
  have a: "accessToken logged_in_session = Some ''tok''"
    by (simp add: logged_in_session_def)
  have f: "filter (\<lambda>g. hasPermission g = Inr True) example_guilds =
      [guild_alpha, guild_delta, guild_gamma]"
    by (simp add: example_guilds_def example_guilds_hasPermission)
  have d: "guild_channels example_remote ''bot-token'' ''1004'' =
      NotOk ''Not Found'' (Inr ''Unknown Guild'')"
    by (simp add: example_remote_def fixed_remote_def)
  from guilds_reconciliation [OF t example_users_me_guilds p, of "''bot-token''"]
  have "guilds_route example_remote ''bot-token'' (Some logged_in_session) =
     (Json 200
        (Success
           [\<lparr>guild_id = ''1001'', guild_name = ''Alpha'', guild_icon = Some ''a1b2c3'',
             guild_owner = True\<rparr>,
            \<lparr>guild_id = ''1003'', guild_name = ''Gamma'', guild_icon = None,
             guild_owner = True\<rparr>]
           None),
      [UsersMeGuilds (Some ''tok''), GuildChannels ''bot-token'' ''1001'',
       GuildChannels ''bot-token'' ''1004'', GuildChannels ''bot-token'' ''1003''])"
    by (simp add: f a example_guild_channels Let_def)
       (simp add: guild_alpha_def guild_gamma_def guild_delta_def example_guilds_def)
  with t d example_users_me_guilds show ?thesis
    by (simp add: example_guilds_def)
qed

text \<open>
  C9. Whenever \<^verbatim>\<open>/guilds\<close> answers with a guild list, for the guild list \<open>gs\<close> of the
  provider, the list answered is exactly the surviving guilds (those of \<open>gs\<close> with the
  manage-server bit for which the provider answered the channel request ok with a readable
  body), each as the object of its \<open>id\<close>, \<open>name\<close>, \<open>icon\<close> and \<open>owner\<close>, in the order in which
  they stand in \<open>gs\<close>: the answer is a subsequence of the projected list fetched, and so are
  its ids of the ids fetched.
\<close>

theorem guilds_order:
  assumes "users_me_guilds env (accessToken s) = Ok (Inr gs)"
    and "fst (guilds_route env botToken (Some s)) = Json n (Success vs dbg)"
  shows "vs =
           map (\<lambda>g. \<lparr>guild_id = guild_id g, guild_name = guild_name g,
                        guild_icon = guild_icon g, guild_owner = guild_owner g\<rparr>)
             (filter (\<lambda>g. \<exists>chs. guild_channels env botToken (guild_id g) = Ok (Inr chs))
                (filter (\<lambda>g. hasPermission g = Inr True) gs)) \<and>
         subseq vs
           (map (\<lambda>g. \<lparr>guild_id = guild_id g, guild_name = guild_name g,
                        guild_icon = guild_icon g, guild_owner = guild_owner g\<rparr>) gs) \<and>
         subseq (map guild_id vs) (map guild_id gs)"
proof -
  let ?view = "\<lambda>g::guild. \<lparr>guild_id = guild_id g, guild_name = guild_name g,
                        guild_icon = guild_icon g, guild_owner = guild_owner g\<rparr>"
  let ?ok = "\<lambda>g::guild. \<exists>chs. guild_channels env botToken (guild_id g) = Ok (Inr chs)"
  let ?ys = "filter ?ok (filter (\<lambda>g. hasPermission g = Inr True) gs)"
  have u: "getUserGuilds env (accessToken s) = Inr gs"
    by (rule getUserGuilds_Ok [OF assms(1)])
  have e: "vs = map ?view ?ys"
  proof (cases "guildsWithPermission gs")
    case (Inl e)
    with assms(2) u show ?thesis
      by (auto simp: guilds_route_def guilds_handler_def fetch_guilds_failed_def
          split: if_splits)
  next
    case (Inr gp)
    have gp: "gp = filter (\<lambda>g. hasPermission g = Inr True) gs"
      by (rule guildsWithPermission_Inr [OF Inr])
    from assms(2) u Inr have "vs = map ?view (filter ?ok gp)"
      by (auto simp: guilds_route_def guilds_handler_def probe_loop_eq project_eq
          split: if_splits)
    with gp show ?thesis by simp
  qed
  have "subseq ?ys (filter (\<lambda>g. hasPermission g = Inr True) gs)"
    by (rule subseq_filter_left)
  moreover have "subseq (filter (\<lambda>g. hasPermission g = Inr True) gs) gs"
    by (rule subseq_filter_left)
  ultimately have s: "subseq ?ys gs" by (rule subseq_order.trans)
  have a: "subseq vs (map ?view gs)"
    unfolding e using s by (rule subseq_map)
  have "map guild_id vs = map guild_id ?ys"
    unfolding e by (simp add: comp_def)
  moreover have "subseq (map guild_id ?ys) (map guild_id gs)"
    using s by (rule subseq_map)
  ultimately have b: "subseq (map guild_id vs) (map guild_id gs)" by simp
  from e a b show ?thesis by blast
qed

text \<open>The same four guilds: Alpha and Gamma are answered, Alpha first as in the list
  fetched.\<close>

theorem guilds_order_witness:
  "users_me_guilds example_remote (accessToken logged_in_session) = Ok (Inr example_guilds) \<and>
   example_guilds = [guild_alpha, guild_delta, guild_beta, guild_gamma] \<and>
   fst (guilds_route example_remote ''bot-token'' (Some logged_in_session)) =
     Json 200
       (Success
          [\<lparr>guild_id = ''1001'', guild_name = ''Alpha'', guild_icon = Some ''a1b2c3'',
            guild_owner = True\<rparr>,
           \<lparr>guild_id = ''1003'', guild_name = ''Gamma'', guild_icon = None,
            guild_owner = True\<rparr>]
          None) \<and>
   subseq
     (map guild_id
        [\<lparr>guild_id = ''1001'', guild_name = ''Alpha'', guild_icon = Some ''a1b2c3'',
          guild_owner = True\<rparr>,
         \<lparr>guild_id = ''1003'', guild_name = ''Gamma'', guild_icon = None,
          guild_owner = True\<rparr>])
     (map guild_id example_guilds)"
proof -
  have h: "fst (guilds_route example_remote ''bot-token'' (Some logged_in_session)) =
     Json 200
       (Success
          [\<lparr>guild_id = ''1001'', guild_name = ''Alpha'', guild_icon = Some ''a1b2c3'',
            guild_owner = True\<rparr>,
           \<lparr>guild_id = ''1003'', guild_name = ''Gamma'', guild_icon = None,
            guild_owner = True\<rparr>]
          None)"
    by (simp add: example_guilds_route)
  from guilds_order [OF example_users_me_guilds h] example_users_me_guilds h
    example_guilds_def
  show ?thesis by blast
qed

section \<open>The permission bit\<close>

text \<open>
  C10. For a guild whose \<open>permissions\<close> is absent, null or the empty string, the filter takes
  the fallback \<open>''0''\<close>, does not throw and answers false: the guild is dropped from every
  filtered list, and the rest of the list is filtered as without it.
\<close>

theorem permissions_absent_excluded:
  assumes "permissions g = None \<or> permissions g = Some []"
  shows "or_default (permissions g) ''0'' = ''0'' \<and>
         hasPermission g = Inr False \<and>
         guildsWithPermission (g # gs) = guildsWithPermission gs \<and>
         (\<forall>gs' gp. guildsWithPermission gs' = Inr gp \<longrightarrow> g \<notin> set gp)"
proof -
  have a: "hasPermission g = Inr False" by (rule hasPermission_absent [OF assms])
  have b: "or_default (permissions g) ''0'' = ''0''"
    using assms by (auto simp: or_default_def)
  have c: "guildsWithPermission (g # gs) = guildsWithPermission gs"
    using a by (simp split: sum.splits)
  have d: "\<forall>gs' gp. guildsWithPermission gs' = Inr gp \<longrightarrow> g \<notin> set gp"
    using a by (auto dest: guildsWithPermission_Inr)
  from a b c d show ?thesis by blast
qed

theorem permissions_absent_excluded_witness:
  "permissions (example_guild ''A'' None) = None \<and>
   hasPermission (example_guild ''A'' None) = Inr False \<and>
   guildsWithPermission [example_guild ''A'' None, example_guild ''B'' (Some ''32'')] =
     Inr [example_guild ''B'' (Some ''32'')]"
proof -
  have h: "permissions (example_guild ''A'' None) = None \<or>
           permissions (example_guild ''A'' None) = Some []"
    by (simp add: example_guild_def)
  have p: "permissions (example_guild ''A'' None) = None"
    by (simp add: example_guild_def)
  from permissions_absent_excluded [OF h, of "[example_guild ''B'' (Some ''32'')]"] p
  show ?thesis by (simp add: example_hasPermission)
qed

text \<open>
  C5. A guild with permissions \<open>''8''\<close> is excluded by the filter, one with \<open>''32''\<close> is
  included and one with \<open>''4294967328''\<close> is included; and for every number, of any size, a
  guild whose permissions are its decimal numeral is included exactly when bit 5 of the
  number (0x20) is set: nothing is truncated.
\<close>

theorem manage_server_bit:
  "hasPermission (g\<lparr>permissions := Some ''8''\<rparr>) = Inr False \<and>
   hasPermission (g\<lparr>permissions := Some ''32''\<rparr>) = Inr True \<and>
   hasPermission (g\<lparr>permissions := Some ''4294967328''\<rparr>) = Inr True \<and>
   guildsWithPermission
     [g\<lparr>permissions := Some ''8''\<rparr>, g\<lparr>permissions := Some ''32''\<rparr>,
      g\<lparr>permissions := Some ''4294967328''\<rparr>] =
     Inr [g\<lparr>permissions := Some ''32''\<rparr>, g\<lparr>permissions := Some ''4294967328''\<rparr>] \<and>
   hasPermission (g\<lparr>permissions := Some (decimal n)\<rparr>) = Inr (odd (n div 32))"
proof -
  have a: "hasPermission (g\<lparr>permissions := Some ''8''\<rparr>) = Inr False"
    using hasPermission_digits [of "g\<lparr>permissions := Some ''8''\<rparr>" "''8''" 8]
    by (simp add: decimal_digit_def digit_of_def)
  have b: "hasPermission (g\<lparr>permissions := Some ''32''\<rparr>) = Inr True"
    using hasPermission_digits [of "g\<lparr>permissions := Some ''32''\<rparr>" "''32''" 32]
    by (simp add: decimal_digit_def digit_of_def)
  have c: "hasPermission (g\<lparr>permissions := Some ''4294967328''\<rparr>) = Inr True"
    using hasPermission_digits [of "g\<lparr>permissions := Some ''4294967328''\<rparr>"
        "''4294967328''" 4294967328]
    by (simp add: decimal_digit_def digit_of_def)
  have d: "guildsWithPermission
     [g\<lparr>permissions := Some ''8''\<rparr>, g\<lparr>permissions := Some ''32''\<rparr>,
      g\<lparr>permissions := Some ''4294967328''\<rparr>] =
     Inr [g\<lparr>permissions := Some ''32''\<rparr>, g\<lparr>permissions := Some ''4294967328''\<rparr>]"
    by (simp add: a b c)
  have "int n div 32 = int (n div 32)" by simp
  then have e: "hasPermission (g\<lparr>permissions := Some (decimal n)\<rparr>) = Inr (odd (n div 32))"
    by (simp add: hasPermission_def or_default_def decimal_not_Nil BigInt_decimal
        MANAGE_GUILD_PERMISSION_def and_32_odd)
  from a b c d e show ?thesis by blast
qed

theorem manage_server_bit_witness:
  "hasPermission (example_guild ''A'' (Some (decimal 18446744073709551648))) = Inr True"
proof -
  have "example_guild ''A'' (Some (decimal 18446744073709551648)) =
        (example_guild ''A'' None)\<lparr>permissions := Some (decimal 18446744073709551648)\<rparr>"
    by (simp add: example_guild_def)
  with manage_server_bit [of "example_guild ''A'' None" 18446744073709551648]
  show ?thesis by simp
qed

end
